theory Spec2Isabelle
  imports Complex_Main "HOL-Library.AList" "HOL-Library.Log_Nat"
begin

section \<open>Python values, errors and dictionaries\<close>

text \<open>
  The module under study is \<^verbatim>\<open>plugins/module_utils/network/ios/facts/legacy/base.py\<close>.
  Its fact extractors fill Python dictionaries with strings, integers, floats, lists and
  nested dictionaries. A dictionary is an association list in insertion order:
  \<^const>\<open>AList.update\<close> replaces the value of a key that is present in place and appends a
  new key at the end, as a Python dictionary does.

  Texts are lists of \<^typ>\<open>char\<close>, read as code points below 256. A float is modelled by
  the rational number it denotes.
\<close>

datatype py_error =
  KeyError | TypeError | ValueError | OverflowError | ZeroDivisionError | AttributeError

datatype pyval =
    VNone
  | VStr string
  | VInt int
  | VFloat rat
  | VList "pyval list"
  | VDict "(string \<times> pyval) list"

type_synonym pydict = "(string \<times> pyval) list"

definition dict_get :: "pydict \<Rightarrow> string \<Rightarrow> py_error + pyval" where
  \<comment> \<open>\<^verbatim>\<open>d[k]\<close> as an expression\<close>
  "dict_get d k = (case map_of d k of None \<Rightarrow> Inl KeyError | Some v \<Rightarrow> Inr v)"

definition dict_set :: "pydict \<Rightarrow> string \<Rightarrow> pyval \<Rightarrow> pydict" where
  \<comment> \<open>\<^verbatim>\<open>d[k] = v\<close>\<close>
  "dict_set d k v = AList.update k v d"

definition dict_has :: "pydict \<Rightarrow> string \<Rightarrow> bool" where
  \<comment> \<open>\<^verbatim>\<open>k in d\<close>\<close>
  "dict_has d k = (map_of d k \<noteq> None)"

section \<open>Character classes and string methods\<close>

definition nl :: char where
  "nl = CHR 0x0A"

definition is_space :: "char \<Rightarrow> bool" where
  \<comment> \<open>\<^verbatim>\<open>\s\<close> of a \<^verbatim>\<open>str\<close> pattern and \<^verbatim>\<open>str.isspace\<close>, below code point 256\<close>
  "is_space c = (let n = (of_char c :: nat) in
     (9 \<le> n \<and> n \<le> 13) \<or> (28 \<le> n \<and> n \<le> 32) \<or> n = 133 \<or> n = 160)"

definition is_digit :: "char \<Rightarrow> bool" where
  \<comment> \<open>\<^verbatim>\<open>\d\<close>, below code point 256\<close>
  "is_digit c = (let n = (of_char c :: nat) in 48 \<le> n \<and> n \<le> 57)"

definition is_word :: "char \<Rightarrow> bool" where
  \<comment> \<open>\<^verbatim>\<open>\w\<close>: alphanumeric code points and the underscore, below code point 256\<close>
  "is_word c = (let n = (of_char c :: nat) in
     (48 \<le> n \<and> n \<le> 57) \<or> (65 \<le> n \<and> n \<le> 90) \<or> n = 95 \<or> (97 \<le> n \<and> n \<le> 122)
     \<or> n = 170 \<or> n = 178 \<or> n = 179 \<or> n = 181 \<or> n = 185 \<or> n = 186
     \<or> (188 \<le> n \<and> n \<le> 190) \<or> (192 \<le> n \<and> n \<le> 214) \<or> (216 \<le> n \<and> n \<le> 246)
     \<or> 248 \<le> n)"

definition lower_char :: "char \<Rightarrow> char" where
  "lower_char c = (let n = (of_char c :: nat) in
     if (65 \<le> n \<and> n \<le> 90) \<or> (192 \<le> n \<and> n \<le> 222 \<and> n \<noteq> 215)
     then char_of (n + 32) else c)"

definition lower :: "string \<Rightarrow> string" where
  \<comment> \<open>\<^verbatim>\<open>str.lower\<close>\<close>
  "lower s = map lower_char s"

definition lstrip :: "string \<Rightarrow> string" where
  "lstrip s = dropWhile is_space s"

definition strip :: "string \<Rightarrow> string" where
  "strip s = rev (dropWhile is_space (rev (dropWhile is_space s)))"

fun contains :: "string \<Rightarrow> string \<Rightarrow> bool" where
  \<comment> \<open>\<^verbatim>\<open>sub in s\<close>\<close>
  "contains sub [] = (sub = [])"
| "contains sub (c # cs) = (take (length sub) (c # cs) = sub \<or> contains sub cs)"

fun split_acc :: "string \<Rightarrow> string \<Rightarrow> string \<Rightarrow> string list" where
  "split_acc sep acc [] = [rev acc]"
| "split_acc sep acc (c # cs) =
     (if sep \<noteq> [] \<and> take (length sep) (c # cs) = sep
      then rev acc # split_acc sep [] (drop (length sep - 1) cs)
      else split_acc sep (c # acc) cs)"

definition split :: "string \<Rightarrow> string \<Rightarrow> string list" where
  \<comment> \<open>\<^verbatim>\<open>s.split(sep)\<close> for a non-empty separator: cut at the leftmost occurrences,
      which do not overlap\<close>
  "split s sep = split_acc sep [] s"

fun digits_val :: "int \<Rightarrow> string \<Rightarrow> int" where
  "digits_val acc [] = acc"
| "digits_val acc (c # cs) = digits_val (10 * acc + (int (of_char c) - 48)) cs"

definition py_int :: "string option \<Rightarrow> py_error + int" where
  \<comment> \<open>\<^verbatim>\<open>int(x)\<close> where \<^verbatim>\<open>x\<close> is a regex group: \<^verbatim>\<open>None\<close> raises TypeError, a text
      that is not a run of decimal digits raises ValueError\<close>
  "py_int x = (case x of
       None \<Rightarrow> Inl TypeError
     | Some s \<Rightarrow> if s \<noteq> [] \<and> list_all is_digit s then Inr (digits_val 0 s) else Inl ValueError)"

section \<open>Regular expressions with the matching order of Python's \<^verbatim>\<open>re\<close>\<close>

text \<open>
  The patterns of the module use literals, character classes, the anchors, greedy and
  lazy repetition, optional parts, alternation and groups. \<open>ms r st\<close> lists every way
  \<open>r\<close> can match at \<open>st\<close>, in the order in which the backtracking matcher tries them,
  so that the head of the list is the match Python reports. A state holds the character
  before the position (\<open>None\<close> at the start of the text), the rest of the text and the
  groups captured so far.
\<close>

datatype regex =
    Sym "char \<Rightarrow> bool"
  | Eps
  | Bol
  | BolM
  | EolM
  | Seq regex regex
  | Alt regex regex
  | Star regex
  | LazyStar regex
  | Grp nat regex

type_synonym caps = "(nat \<times> string) list"
type_synonym mstate = "char option \<times> string \<times> caps"

function ms :: "regex \<Rightarrow> mstate \<Rightarrow> mstate list" where
  "ms (Sym p) (pr, rest, g) =
     (case rest of [] \<Rightarrow> [] | c # cs \<Rightarrow> if p c then [(Some c, cs, g)] else [])"
| "ms Eps st = [st]"
| "ms Bol (pr, rest, g) = (if pr = None then [(pr, rest, g)] else [])"
| "ms BolM (pr, rest, g) = (if pr = None \<or> pr = Some nl then [(pr, rest, g)] else [])"
| "ms EolM (pr, rest, g) = (if rest = [] \<or> take 1 rest = [nl] then [(pr, rest, g)] else [])"
| "ms (Seq a b) st = concat (map (ms b) (ms a st))"
| "ms (Alt a b) st = ms a st @ ms b st"
| "ms (Star r) (pr, rest, g) =
     concat (map (\<lambda>(pr', rest', g').
                    if length rest' < length rest then ms (Star r) (pr', rest', g') else [])
                 (ms r (pr, rest, g)))
     @ [(pr, rest, g)]"
| "ms (LazyStar r) (pr, rest, g) =
     (pr, rest, g) #
     concat (map (\<lambda>(pr', rest', g').
                    if length rest' < length rest then ms (LazyStar r) (pr', rest', g') else [])
                 (ms r (pr, rest, g)))"
| "ms (Grp n r) (pr, rest, g) =
     map (\<lambda>(pr', rest', g').
            (pr', rest', AList.update n (take (length rest - length rest') rest) g'))
         (ms r (pr, rest, g))"
  by pat_completeness auto
termination
  by (relation "measures [\<lambda>(r, st). size r, \<lambda>(r, pr, rest, g). length rest]") auto

definition Lit :: "string \<Rightarrow> regex" where
  "Lit s = foldr (\<lambda>c r. Seq (Sym (\<lambda>x. x = c)) r) s Eps"

definition Plus :: "regex \<Rightarrow> regex" where
  "Plus r = Seq r (Star r)"

definition Opt :: "regex \<Rightarrow> regex" where
  "Opt r = Alt r Eps"

definition Dot :: regex where
  \<comment> \<open>\<^verbatim>\<open>.\<close> without \<^verbatim>\<open>re.S\<close>\<close>
  "Dot = Sym (\<lambda>c. c \<noteq> nl)"

definition DotAll :: regex where
  \<comment> \<open>\<^verbatim>\<open>.\<close> under \<^verbatim>\<open>re.S\<close>\<close>
  "DotAll = Sym (\<lambda>c. True)"

definition Seqs :: "regex list \<Rightarrow> regex" where
  "Seqs rs = foldr Seq rs Eps"

type_synonym rmatch = "string \<times> caps"

definition matched :: "string \<Rightarrow> mstate \<Rightarrow> rmatch" where
  \<comment> \<open>the text of the whole match and its groups\<close>
  "matched rest st = (case st of (pr', rest', g) \<Rightarrow> (take (length rest - length rest') rest, g))"

definition re_match :: "regex \<Rightarrow> string \<Rightarrow> rmatch option" where
  \<comment> \<open>\<^verbatim>\<open>re.match(r, s)\<close>: a match at the start of the text only\<close>
  "re_match r s = (case ms r (None, s, []) of [] \<Rightarrow> None | st # _ \<Rightarrow> Some (matched s st))"

fun search_from :: "regex \<Rightarrow> char option \<Rightarrow> string \<Rightarrow> rmatch option" where
  "search_from r pr rest =
     (case ms r (pr, rest, []) of
        st # _ \<Rightarrow> Some (matched rest st)
      | [] \<Rightarrow> (case rest of [] \<Rightarrow> None | c # cs \<Rightarrow> search_from r (Some c) cs))"

definition re_search :: "regex \<Rightarrow> string \<Rightarrow> rmatch option" where
  \<comment> \<open>\<^verbatim>\<open>re.search(r, s)\<close>: the match at the leftmost position that has one\<close>
  "re_search r s = search_from r None s"

definition group :: "rmatch \<Rightarrow> nat \<Rightarrow> string option" where
  \<comment> \<open>\<^verbatim>\<open>m.group(n)\<close>, \<open>None\<close> for a group that took no part in the match\<close>
  "group m n = map_of (snd m) n"

fun findall_from :: "regex \<Rightarrow> char option \<Rightarrow> string \<Rightarrow> rmatch list" where
  "findall_from r pr rest =
     (case ms r (pr, rest, []) of
        [] \<Rightarrow> (case rest of [] \<Rightarrow> [] | c # cs \<Rightarrow> findall_from r (Some c) cs)
      | (pr', rest', g) # _ \<Rightarrow>
          matched rest (pr', rest', g) #
          (if length rest' < length rest then findall_from r pr' rest'
           else (case rest of [] \<Rightarrow> [] | c # cs \<Rightarrow> findall_from r (Some c) cs)))"

definition re_findall :: "regex \<Rightarrow> string \<Rightarrow> string list" where
  \<comment> \<open>\<^verbatim>\<open>re.findall(r, s)\<close> for a pattern with exactly one group: the texts of group 1 of
      the successive matches, which do not overlap. None of the module's patterns
      matches the empty text.\<close>
  "re_findall r s =
     map (\<lambda>m. case group m 1 of None \<Rightarrow> [] | Some x \<Rightarrow> x) (findall_from r None s)"

fun sub_from :: "regex \<Rightarrow> string \<Rightarrow> char option \<Rightarrow> string \<Rightarrow> string" where
  "sub_from r repl pr rest =
     (case ms r (pr, rest, []) of
        [] \<Rightarrow> (case rest of [] \<Rightarrow> [] | c # cs \<Rightarrow> c # sub_from r repl (Some c) cs)
      | (pr', rest', g) # _ \<Rightarrow>
          repl @
          (if length rest' < length rest then sub_from r repl pr' rest'
           else (case rest of [] \<Rightarrow> [] | c # cs \<Rightarrow> c # sub_from r repl (Some c) cs)))"

definition re_sub :: "regex \<Rightarrow> string \<Rightarrow> string \<Rightarrow> string" where
  \<comment> \<open>\<^verbatim>\<open>re.sub(r, repl, s)\<close> for a replacement text without group references: every
      match is replaced, from the left, without overlap\<close>
  "re_sub r repl s = sub_from r repl None s"

definition Space :: regex where
  "Space = Sym is_space"

definition NonSpace :: regex where
  "NonSpace = Sym (\<lambda>c. \<not> is_space c)"

definition Digit :: regex where
  "Digit = Sym is_digit"

definition OneOf :: "string \<Rightarrow> regex" where
  "OneOf cs = Sym (\<lambda>c. List.member cs c)"

section \<open>True division\<close>

text \<open>
  The module starts with \<^verbatim>\<open>from __future__ import division\<close>, so \<^verbatim>\<open>/\<close> between two
  integers is true division: the result is the float (IEEE binary64, round to nearest,
  ties to even) nearest to the quotient, and OverflowError when that is out of range.
\<close>

definition pow2 :: "int \<Rightarrow> rat" where
  "pow2 e = (if 0 \<le> e then 2 ^ nat e else 1 / 2 ^ nat (- e))"

definition floor_log2 :: "rat \<Rightarrow> int" where
  \<comment> \<open>the exponent \<open>e\<close> with \<open>2\<^sup>e \<le> q < 2\<^sup>e\<^sup>+\<^sup>1\<close>, for \<open>0 < q\<close>\<close>
  "floor_log2 q = (case quotient_of q of (n, d) \<Rightarrow>
     let e0 = bitlen n - bitlen d in if pow2 e0 \<le> q then e0 else e0 - 1)"

definition round_half_even :: "rat \<Rightarrow> int" where
  "round_half_even q = (let f = \<lfloor>q\<rfloor>; d = q - of_int f in
     if d < 1 / 2 then f else if 1 / 2 < d then f + 1 else if even f then f else f + 1)"

definition float_round :: "rat \<Rightarrow> rat option" where
  "float_round q =
     (if q = 0 then Some 0
      else let x = \<bar>q\<bar>;
               e = max (floor_log2 x) (- 1022);
               u = pow2 (e - 52);
               r = of_int (round_half_even (x / u)) * u
           in if pow2 1024 \<le> r then None else Some (sgn q * r))"

definition py_truediv :: "int \<Rightarrow> int \<Rightarrow> py_error + rat" where
  "py_truediv a b =
     (if b = 0 then Inl ZeroDivisionError
      else case float_round (of_int a / of_int b) of
             None \<Rightarrow> Inl OverflowError
           | Some x \<Rightarrow> Inr x)"

section \<open>The Default extractor\<close>

definition opt_val :: "string option \<Rightarrow> pyval" where
  \<comment> \<open>what a parse function returns: the group, or \<^verbatim>\<open>None\<close> when it falls off its end\<close>
  "opt_val x = (case x of None \<Rightarrow> VNone | Some s \<Rightarrow> VStr s)"

definition search_group :: "regex \<Rightarrow> string \<Rightarrow> string option" where
  \<comment> \<open>\<^verbatim>\<open>match = re.search(r, data); if match: return match.group(1)\<close>\<close>
  "search_group r data = (case re_search r data of None \<Rightarrow> None | Some m \<Rightarrow> group m 1)"

definition re_iostype :: regex where
  \<comment> \<open>\<^verbatim>\<open>\sIOS-XE\s\<close>\<close>
  "re_iostype = Seqs [Space, Lit ''IOS-XE'', Space]"

definition parse_iostype :: "string \<Rightarrow> string" where
  "parse_iostype data =
     (case re_search re_iostype data of Some m \<Rightarrow> ''IOS-XE'' | None \<Rightarrow> ''IOS'')"

definition re_operatingmode :: regex where
  \<comment> \<open>\<^verbatim>\<open>Router\soperating\smode: (\S+)\<close>\<close>
  "re_operatingmode =
     Seqs [Lit ''Router'', Space, Lit ''operating'', Space, Lit ''mode: '', Grp 1 (Plus NonSpace)]"

definition parse_operatingmode :: "string \<Rightarrow> string \<Rightarrow> string" where
  "parse_operatingmode data iostype =
     (if (case re_search re_operatingmode data of
            None \<Rightarrow> False
          | Some m \<Rightarrow> (case group m 1 of
                         None \<Rightarrow> False
                       | Some w \<Rightarrow> contains ''autonomous'' (lower w)))
         \<or> iostype = ''IOS''
      then ''autonomous''
      else ''controller'')"

definition re_serialnum :: regex where
  \<comment> \<open>\<^verbatim>\<open>board ID (\S+)\<close>\<close>
  "re_serialnum = Seqs [Lit ''board ID '', Grp 1 (Plus NonSpace)]"

definition parse_serialnum :: "string \<Rightarrow> string option" where
  "parse_serialnum data = search_group re_serialnum data"

definition re_stack_model :: regex where
  \<comment> \<open>\<^verbatim>\<open>^Model [Nn]umber\s+: (\S+)\<close> under \<^verbatim>\<open>re.M\<close>\<close>
  "re_stack_model =
     Seqs [BolM, Lit ''Model '', OneOf ''Nn'', Lit ''umber'', Plus Space, Lit '': '',
           Grp 1 (Plus NonSpace)]"

definition re_stack_serial :: regex where
  \<comment> \<open>\<^verbatim>\<open>^System [Ss]erial [Nn]umber\s+: (\S+)\<close> under \<^verbatim>\<open>re.M\<close>\<close>
  "re_stack_serial =
     Seqs [BolM, Lit ''System '', OneOf ''Ss'', Lit ''erial '', OneOf ''Nn'', Lit ''umber'',
           Plus Space, Lit '': '', Grp 1 (Plus NonSpace)]"

definition str_list :: "string list \<Rightarrow> pyval" where
  "str_list xs = VList (map VStr xs)"

definition parse_stacks :: "string \<Rightarrow> pydict \<Rightarrow> pydict" where
  "parse_stacks data facts =
     (let models = re_findall re_stack_model data;
          f1 = (if models \<noteq> [] then dict_set facts ''stacked_models'' (str_list models)
                else facts);
          serials = re_findall re_stack_serial data;
          f2 = (if serials \<noteq> [] then dict_set f1 ''stacked_serialnums'' (str_list serials)
                else f1)
      in if dict_has f2 ''stacked_models'' then dict_set f2 ''virtual_switch'' (VStr ''STACK'')
         else f2)"

definition re_vs_domain :: regex where
  \<comment> \<open>\<^verbatim>\<open>^Virtual switch domain number : ([0-9]+)\<close> under \<^verbatim>\<open>re.M\<close>\<close>
  "re_vs_domain = Seqs [BolM, Lit ''Virtual switch domain number : '', Grp 1 (Plus Digit)]"

definition re_vs_serial :: regex where
  \<comment> \<open>\<^verbatim>\<open>System".*?SN:\s*([^\s]+)\<close> under \<^verbatim>\<open>re.S\<close>\<close>
  "re_vs_serial =
     Seqs [Lit ''System'', Lit [CHR 0x22], LazyStar DotAll, Lit ''SN:'', Star Space,
           Grp 1 (Plus NonSpace)]"

definition parse_virtual_switch :: "string \<Rightarrow> pydict \<Rightarrow> pydict" where
  "parse_virtual_switch data facts =
     (let f1 = (case re_search re_vs_domain data of
                  Some m \<Rightarrow> dict_set (dict_set facts ''virtual_switch'' (VStr ''VSS''))
                              ''virtual_switch_domain'' (opt_val (group m 1))
                | None \<Rightarrow> facts);
          serials = re_findall re_vs_serial data
      in if serials \<noteq> [] then dict_set f1 ''virtual_switch_serialnums'' (str_list serials)
         else f1)"

definition dict_update_all :: "pydict \<Rightarrow> pydict \<Rightarrow> pydict" where
  \<comment> \<open>\<^verbatim>\<open>d.update(other)\<close>\<close>
  "dict_update_all d other = foldl (\<lambda>acc kv. dict_set acc (fst kv) (snd kv)) d other"

definition Default_populate :: "pydict \<Rightarrow> string \<Rightarrow> string \<Rightarrow> string \<Rightarrow> pydict" where
  \<comment> \<open>\<open>pf\<close> is what \<^verbatim>\<open>self.platform_facts()\<close> returns (it reads the capabilities of
      the device, which come from outside this module); the three texts are the
      responses to \<^verbatim>\<open>show version\<close>, \<^verbatim>\<open>show switch virtual\<close> and \<^verbatim>\<open>show inventory\<close>\<close>
  "Default_populate pf r0 r1 r2 =
     (let f0 = dict_update_all [] pf;
          f1 = (if r0 \<noteq> [] then
                  (let iostype = parse_iostype r0;
                       a = dict_set f0 ''iostype'' (VStr iostype);
                       b = dict_set a ''operatingmode'' (VStr (parse_operatingmode r0 iostype));
                       c = dict_set b ''serialnum'' (opt_val (parse_serialnum r0))
                   in parse_stacks r0 c)
                else f0);
          data = r1 @ r2
      in if data \<noteq> [] \<and> \<not> list_ex (\<lambda>err. contains err data)
                                  [''Invalid input'', ''Switch Mode : Standalone'']
         then parse_virtual_switch data f1
         else f1)"

section \<open>The Hardware extractor\<close>

definition is_linebreak :: "char \<Rightarrow> bool" where
  \<comment> \<open>the line boundaries of \<^verbatim>\<open>str.splitlines\<close>, below code point 256\<close>
  "is_linebreak c = (let n = (of_char c :: nat) in
     (10 \<le> n \<and> n \<le> 13) \<or> (28 \<le> n \<and> n \<le> 30) \<or> n = 133)"

fun splitlines_acc :: "string \<Rightarrow> string \<Rightarrow> string list" where
  "splitlines_acc acc [] = (if acc = [] then [] else [rev acc])"
| "splitlines_acc acc [c] = (if is_linebreak c then [rev acc] else [rev (c # acc)])"
| "splitlines_acc acc (c # d # ds) =
     (if c = CHR 0x0D \<and> d = nl then rev acc # splitlines_acc [] ds
      else if is_linebreak c then rev acc # splitlines_acc [] (d # ds)
      else splitlines_acc (c # acc) (d # ds))"

definition splitlines :: "string \<Rightarrow> string list" where
  \<comment> \<open>\<^verbatim>\<open>s.splitlines()\<close>: a carriage return followed by a line feed is one boundary,
      and a boundary at the very end opens no further line\<close>
  "splitlines s = splitlines_acc [] s"

definition re_directory_m :: regex where
  \<comment> \<open>\<^verbatim>\<open>^Directory of (\S+)/\<close> under \<^verbatim>\<open>re.M\<close>\<close>
  "re_directory_m = Seqs [BolM, Lit ''Directory of '', Grp 1 (Plus NonSpace), Lit ''/'']"

definition parse_filesystems :: "string \<Rightarrow> string list" where
  "parse_filesystems data = re_findall re_directory_m data"

definition re_directory :: regex where
  \<comment> \<open>\<^verbatim>\<open>^Directory of (\S+)/\<close>\<close>
  "re_directory = Seqs [Bol, Lit ''Directory of '', Grp 1 (Plus NonSpace), Lit ''/'']"

definition re_bytes_total :: regex where
  \<comment> \<open>\<^verbatim>\<open>^(\d+) bytes total \((\d+) bytes free\)\<close>\<close>
  "re_bytes_total =
     Seqs [Bol, Grp 1 (Plus Digit), Lit '' bytes total ('', Grp 2 (Plus Digit),
           Lit '' bytes free)'']"

definition bytes_div :: "string option \<Rightarrow> int \<Rightarrow> py_error + pyval" where
  \<comment> \<open>\<^verbatim>\<open>int(match.group(...)) / k\<close>\<close>
  "bytes_div x k = (case py_int x of
       Inl e \<Rightarrow> Inl e
     | Inr n \<Rightarrow> (case py_truediv n k of Inl e \<Rightarrow> Inl e | Inr q \<Rightarrow> Inr (VFloat q)))"

definition set_space :: "pydict \<Rightarrow> string \<Rightarrow> string \<Rightarrow> pyval \<Rightarrow> py_error + pydict" where
  \<comment> \<open>\<^verbatim>\<open>facts[fs][k] = v\<close>, where \<^verbatim>\<open>facts[fs]\<close> is read first\<close>
  "set_space facts fs k v = (case dict_get facts fs of
       Inl e \<Rightarrow> Inl e
     | Inr (VDict d) \<Rightarrow> Inr (dict_set facts fs (VDict (dict_set d k v)))
     | Inr _ \<Rightarrow> Inl TypeError)"

fun filesystems_info_loop :: "string list \<Rightarrow> string \<Rightarrow> pydict \<Rightarrow> py_error + pydict" where
  \<comment> \<open>the loop over the lines; \<open>fs\<close> is the open filesystem, \<^verbatim>\<open>""\<close> before the first\<close>
  "filesystems_info_loop [] fs facts = Inr facts"
| "filesystems_info_loop (line # lines) fs facts =
     (case re_match re_directory line of
        Some m \<Rightarrow>
          (case group m 1 of
             None \<Rightarrow> Inl TypeError
           | Some fs' \<Rightarrow> filesystems_info_loop lines fs' (dict_set facts fs' (VDict [])))
      | None \<Rightarrow>
          (case re_match re_bytes_total line of
             None \<Rightarrow> filesystems_info_loop lines fs facts
           | Some m \<Rightarrow>
               (case bytes_div (group m 1) 1024 of
                  Inl e \<Rightarrow> Inl e
                | Inr v_total \<Rightarrow>
                    (case set_space facts fs ''spacetotal_kb'' v_total of
                       Inl e \<Rightarrow> Inl e
                     | Inr f1 \<Rightarrow>
                         (case bytes_div (group m 2) 1024 of
                            Inl e \<Rightarrow> Inl e
                          | Inr v_free \<Rightarrow>
                              (case set_space f1 fs ''spacefree_kb'' v_free of
                                 Inl e \<Rightarrow> Inl e
                               | Inr f2 \<Rightarrow> filesystems_info_loop lines fs f2))))))"

definition parse_filesystems_info :: "string \<Rightarrow> py_error + pydict" where
  "parse_filesystems_info data = filesystems_info_loop (split data [nl]) [] []"

definition re_cpu_utilization :: regex where
  \<comment> \<open>the pattern of \<^verbatim>\<open>parse_cpu_utilization\<close>, compiled under \<^verbatim>\<open>re.VERBOSE\<close>, which
      drops the white space and the line breaks of the pattern text:
      \<^verbatim>\<open>(^Core\s(?P<core>\d+)?:)?\<close>
      \<^verbatim>\<open>(^|\s)CPU\sutilization\sfor\sfive\sseconds:\<close>
      \<^verbatim>\<open>(\s(?P<f_sec>\d+)?%)?\<close>
      \<^verbatim>\<open>(\s(?P<f_se_nom>\d+)%/(?P<f_s_denom>\d+)%\)?)?\<close>
      \<^verbatim>\<open>;\sone\sminute:\s(?P<a_min>\d+)?%\<close>
      \<^verbatim>\<open>;\sfive\sminutes:\s(?P<f_min>\d+)?%\<close>
      The groups are numbered by their opening parentheses: core 2, f_sec 5, f_se_nom 7,
      f_s_denom 8, a_min 9, f_min 10.\<close>
  "re_cpu_utilization =
     Seqs [Opt (Grp 1 (Seqs [Bol, Lit ''Core'', Space, Opt (Grp 2 (Plus Digit)), Lit '':''])),
           Grp 3 (Alt Bol Space),
           Lit ''CPU'', Space, Lit ''utilization'', Space, Lit ''for'', Space, Lit ''five'',
           Space, Lit ''seconds:'',
           Opt (Grp 4 (Seqs [Space, Opt (Grp 5 (Plus Digit)), Lit ''%''])),
           Opt (Grp 6 (Seqs [Space, Grp 7 (Plus Digit), Lit ''%/'', Grp 8 (Plus Digit),
                             Lit ''%'', Opt (Lit '')'')])),
           Lit '';'', Space, Lit ''one'', Space, Lit ''minute:'', Space,
           Opt (Grp 9 (Plus Digit)), Lit ''%'',
           Lit '';'', Space, Lit ''five'', Space, Lit ''minutes:'', Space,
           Opt (Grp 10 (Plus Digit)), Lit ''%'']"

definition group_or :: "string option \<Rightarrow> string option \<Rightarrow> string option" where
  \<comment> \<open>\<^verbatim>\<open>a or b\<close> on two groups: \<^verbatim>\<open>a\<close> when it is a non-empty text, else \<^verbatim>\<open>b\<close>\<close>
  "group_or a b = (case a of None \<Rightarrow> b | Some s \<Rightarrow> if s \<noteq> [] then a else b)"

definition group_true :: "string option \<Rightarrow> bool" where
  \<comment> \<open>the truth value of a group\<close>
  "group_true a = (case a of None \<Rightarrow> False | Some s \<Rightarrow> s \<noteq> [])"

definition cpu_line :: "rmatch \<Rightarrow> pydict \<Rightarrow> py_error + pydict" where
  \<comment> \<open>the body of the loop for a line that the pattern matches\<close>
  "cpu_line m facts =
     (let core = (if group_true (group m 2)
                  then ''core_'' @ (case group m 2 of None \<Rightarrow> [] | Some s \<Rightarrow> s)
                  else ''core'')
      in case py_int (group_or (group m 7) (group m 5)) of
           Inl e \<Rightarrow> Inl e
         | Inr five_seconds \<Rightarrow>
             (case py_int (group m 9) of
                Inl e \<Rightarrow> Inl e
              | Inr one_minute \<Rightarrow>
                  (case py_int (group m 10) of
                     Inl e \<Rightarrow> Inl e
                   | Inr five_minutes \<Rightarrow>
                       (let rec = [(''five_seconds'', VInt five_seconds),
                                   (''one_minute'', VInt one_minute),
                                   (''five_minutes'', VInt five_minutes)]
                        in if group_true (group m 8)
                           then (case py_int (group m 8) of
                                   Inl e \<Rightarrow> Inl e
                                 | Inr i \<Rightarrow>
                                     Inr (dict_set facts core
                                           (VDict (dict_set rec ''five_seconds_interrupt''
                                                     (VInt i)))))
                           else Inr (dict_set facts core (VDict rec))))))"

fun cpu_utilization_loop :: "string list \<Rightarrow> pydict \<Rightarrow> py_error + pydict" where
  "cpu_utilization_loop [] facts = Inr facts"
| "cpu_utilization_loop (line # lines) facts =
     (case re_match re_cpu_utilization line of
        None \<Rightarrow> cpu_utilization_loop lines facts
      | Some m \<Rightarrow> (case cpu_line m facts of
                     Inl e \<Rightarrow> Inl e
                   | Inr f \<Rightarrow> cpu_utilization_loop lines f))"

definition parse_cpu_utilization :: "string \<Rightarrow> py_error + pydict" where
  "parse_cpu_utilization data = cpu_utilization_loop (split data [nl]) []"

definition re_processor :: regex where
  \<comment> \<open>\<^verbatim>\<open>Processor\s+(\S+|\d+)\s+(?P<total>\d+)\s+\d+\s+(?P<free>\d+)\<close>:
      group 2 is \<^verbatim>\<open>total\<close>, group 3 is \<^verbatim>\<open>free\<close>\<close>
  "re_processor =
     Seqs [Lit ''Processor'', Plus Space, Grp 1 (Alt (Plus NonSpace) (Plus Digit)), Plus Space,
           Grp 2 (Plus Digit), Plus Space, Plus Digit, Plus Space, Grp 3 (Plus Digit)]"

definition memory_line :: "string \<Rightarrow> pydict \<Rightarrow> py_error + pydict" where
  \<comment> \<open>the body of the loop over the lines of \<^verbatim>\<open>show memory statistics\<close>\<close>
  "memory_line line facts =
     (case re_match re_processor line of
        None \<Rightarrow> Inr facts
      | Some m \<Rightarrow>
          (case bytes_div (group m 2) 1048576 of
             Inl e \<Rightarrow> Inl e
           | Inr v_total \<Rightarrow>
               (case bytes_div (group m 3) 1048576 of
                  Inl e \<Rightarrow> Inl e
                | Inr v_free \<Rightarrow>
                    Inr (dict_set (dict_set facts ''memtotal_mb'' v_total) ''memfree_mb'' v_free))))"

fun memory_loop :: "string list \<Rightarrow> pydict \<Rightarrow> py_error + pydict" where
  "memory_loop [] facts = Inr facts"
| "memory_loop (line # lines) facts =
     (case memory_line line facts of Inl e \<Rightarrow> Inl e | Inr f \<Rightarrow> memory_loop lines f)"

definition Hardware_populate :: "string \<Rightarrow> string \<Rightarrow> string \<Rightarrow> py_error + pydict" where
  \<comment> \<open>the responses to \<^verbatim>\<open>dir\<close>, \<^verbatim>\<open>show memory statistics\<close> and
      \<^verbatim>\<open>show processes cpu | include CPU utilization\<close>; the list \<^verbatim>\<open>warnings\<close> of the
      method is local to it and is dropped at its end\<close>
  "Hardware_populate r0 r1 r2 =
     (case (if r0 \<noteq> [] then
              (case parse_filesystems_info r0 of
                 Inl e \<Rightarrow> Inl e
               | Inr info \<Rightarrow>
                   Inr (dict_set (dict_set [] ''filesystems'' (str_list (parse_filesystems r0)))
                          ''filesystems_info'' (VDict info)))
            else Inr []) of
        Inl e \<Rightarrow> Inl e
      | Inr f1 \<Rightarrow>
          (case parse_cpu_utilization r2 of
             Inl e \<Rightarrow> Inl e
           | Inr cpu \<Rightarrow>
               (let f2 = dict_set f1 ''cpu_utilization'' (VDict cpu)
                in if r1 \<noteq> [] then
                     (if contains ''Invalid input detected'' r1 then Inr f2
                      else memory_loop (splitlines r1) f2)
                   else Inr f2)))"

section \<open>The Config extractor\<close>

definition re_banner :: regex where
  \<comment> \<open>The pattern text is a raw string in triple quotes that runs over two source lines
      and is compiled with \<^verbatim>\<open>re.MULTILINE\<close> only, so its line break and the sixteen
      blanks that indent its second line are part of the pattern:
      \<^verbatim>\<open>^Building configuration\<close>, a line feed, sixteen blanks, then
      \<^verbatim>\<open>...\s+Current configuration : \d+ bytes\n\<close>\<close>
  "re_banner =
     Seqs [BolM, Lit ''Building configuration'', Lit [nl], Lit (replicate 16 (CHR '' '')),
           Dot, Dot, Dot, Plus Space, Lit ''Current configuration : '', Plus Digit,
           Lit '' bytes'', Lit [nl]]"

definition Config_populate :: "string \<Rightarrow> pydict" where
  \<comment> \<open>the response to \<^verbatim>\<open>show running-config\<close>\<close>
  "Config_populate r0 =
     (if r0 \<noteq> [] then dict_set [] ''config'' (VStr (re_sub re_banner [] r0)) else [])"

section \<open>The Interfaces extractor\<close>

subsection \<open>The block parser\<close>

definition re_key :: regex where
  \<comment> \<open>\<^verbatim>\<open>^(\S+)\<close>\<close>
  "re_key = Seqs [Bol, Grp 1 (Plus NonSpace)]"

type_synonym blocks = "(string \<times> string) list"

fun parse_interfaces_loop :: "string list \<Rightarrow> string \<Rightarrow> blocks \<Rightarrow> py_error + blocks" where
  "parse_interfaces_loop [] key parsed = Inr parsed"
| "parse_interfaces_loop (line # lines) key parsed =
     (if length line = 0 then parse_interfaces_loop lines key parsed
      else if take 1 line = '' '' then
        (case map_of parsed key of
           None \<Rightarrow> Inl KeyError
         | Some v \<Rightarrow> parse_interfaces_loop lines key (AList.update key (v @ [nl] @ line) parsed))
      else
        (case re_match re_key line of
           None \<Rightarrow> parse_interfaces_loop lines key parsed
         | Some m \<Rightarrow>
             (case group m 1 of
                None \<Rightarrow> Inl TypeError
              | Some k \<Rightarrow> parse_interfaces_loop lines k (AList.update k line parsed))))"

definition parse_interfaces :: "string \<Rightarrow> py_error + blocks" where
  "parse_interfaces data = parse_interfaces_loop (split data [nl]) [] []"

subsection \<open>The attributes of one interface\<close>

definition re_description :: regex where
  \<comment> \<open>\<^verbatim>\<open>Description: (.+)$\<close> under \<^verbatim>\<open>re.M\<close>\<close>
  "re_description = Seqs [Lit ''Description: '', Grp 1 (Plus Dot), EolM]"

definition parse_description :: "string \<Rightarrow> string option" where
  "parse_description data = search_group re_description data"

definition re_macaddress :: regex where
  \<comment> \<open>\<^verbatim>\<open>Hardware is (?:.*), address is (\S+)\<close>\<close>
  "re_macaddress =
     Seqs [Lit ''Hardware is '', Star Dot, Lit '', address is '', Grp 1 (Plus NonSpace)]"

definition parse_macaddress :: "string \<Rightarrow> string option" where
  "parse_macaddress data = search_group re_macaddress data"

definition int_val :: "string option \<Rightarrow> pyval" where
  \<comment> \<open>\<^verbatim>\<open>if match: return int(match.group(1))\<close> for a group matched by \<^verbatim>\<open>\d+\<close>\<close>
  "int_val x = (case x of None \<Rightarrow> VNone | Some s \<Rightarrow> VInt (digits_val 0 s))"

definition re_mtu :: regex where
  \<comment> \<open>\<^verbatim>\<open>MTU (\d+)\<close>\<close>
  "re_mtu = Seqs [Lit ''MTU '', Grp 1 (Plus Digit)]"

definition parse_mtu :: "string \<Rightarrow> pyval" where
  "parse_mtu data = int_val (search_group re_mtu data)"

definition re_bandwidth :: regex where
  \<comment> \<open>\<^verbatim>\<open>BW (\d+)\<close>\<close>
  "re_bandwidth = Seqs [Lit ''BW '', Grp 1 (Plus Digit)]"

definition parse_bandwidth :: "string \<Rightarrow> pyval" where
  "parse_bandwidth data = int_val (search_group re_bandwidth data)"

definition re_duplex :: regex where
  \<comment> \<open>\<^verbatim>\<open>(\w+) Duplex\<close>\<close>
  "re_duplex = Seqs [Grp 1 (Plus (Sym is_word)), Lit '' Duplex'']"

definition parse_duplex :: "string \<Rightarrow> string option" where
  "parse_duplex data = search_group re_duplex data"

definition re_mediatype :: regex where
  \<comment> \<open>\<^verbatim>\<open>media type is (.+)$\<close> under \<^verbatim>\<open>re.M\<close>\<close>
  "re_mediatype = Seqs [Lit ''media type is '', Grp 1 (Plus Dot), EolM]"

definition parse_mediatype :: "string \<Rightarrow> string option" where
  "parse_mediatype data = search_group re_mediatype data"

definition re_type :: regex where
  \<comment> \<open>\<^verbatim>\<open>Hardware is (.+),\<close>\<close>
  "re_type = Seqs [Lit ''Hardware is '', Grp 1 (Plus Dot), Lit '','']"

definition parse_type :: "string \<Rightarrow> string option" where
  "parse_type data = search_group re_type data"

definition re_lineprotocol :: regex where
  \<comment> \<open>\<^verbatim>\<open>line protocol is (up|down)(.+)?$\<close> under \<^verbatim>\<open>re.M\<close>\<close>
  "re_lineprotocol =
     Seqs [Lit ''line protocol is '', Grp 1 (Alt (Lit ''up'') (Lit ''down'')),
           Opt (Grp 2 (Plus Dot)), EolM]"

definition parse_lineprotocol :: "string \<Rightarrow> string option" where
  "parse_lineprotocol data = search_group re_lineprotocol data"

definition re_operstatus :: regex where
  \<comment> \<open>\<^verbatim>\<open>^(?:.+) is (.+),\<close> under \<^verbatim>\<open>re.M\<close>\<close>
  "re_operstatus = Seqs [BolM, Plus Dot, Lit '' is '', Grp 1 (Plus Dot), Lit '','']"

definition parse_operstatus :: "string \<Rightarrow> string option" where
  "parse_operstatus data = map_option lstrip (search_group re_operstatus data)"

definition populate_interfaces :: "blocks \<Rightarrow> pydict" where
  "populate_interfaces interfaces =
     foldl (\<lambda>facts kv.
              dict_set facts (fst kv)
                (VDict [(''description'', opt_val (parse_description (snd kv))),
                        (''macaddress'', opt_val (parse_macaddress (snd kv))),
                        (''mtu'', parse_mtu (snd kv)),
                        (''bandwidth'', parse_bandwidth (snd kv)),
                        (''mediatype'', opt_val (parse_mediatype (snd kv))),
                        (''duplex'', opt_val (parse_duplex (snd kv))),
                        (''lineprotocol'', opt_val (parse_lineprotocol (snd kv))),
                        (''operstatus'', opt_val (parse_operstatus (snd kv))),
                        (''type'', opt_val (parse_type (snd kv)))]))
           [] interfaces"

subsection \<open>Addresses\<close>

definition get_interfaces :: "pydict \<Rightarrow> py_error + pydict" where
  \<comment> \<open>\<^verbatim>\<open>self.facts["interfaces"]\<close>\<close>
  "get_interfaces facts = (case dict_get facts ''interfaces'' of
       Inl e \<Rightarrow> Inl e
     | Inr (VDict ifs) \<Rightarrow> Inr ifs
     | Inr _ \<Rightarrow> Inl TypeError)"

definition get_intf :: "pydict \<Rightarrow> string \<Rightarrow> py_error + pydict" where
  \<comment> \<open>\<^verbatim>\<open>self.facts["interfaces"][key]\<close>\<close>
  "get_intf facts key = (case get_interfaces facts of
       Inl e \<Rightarrow> Inl e
     | Inr ifs \<Rightarrow> (case dict_get ifs key of
                     Inl e \<Rightarrow> Inl e
                   | Inr (VDict intf) \<Rightarrow> Inr intf
                   | Inr _ \<Rightarrow> Inl TypeError))"

definition set_intf :: "pydict \<Rightarrow> string \<Rightarrow> pydict \<Rightarrow> py_error + pydict" where
  \<comment> \<open>\<^verbatim>\<open>self.facts["interfaces"][key] = intf\<close>\<close>
  "set_intf facts key intf = (case get_interfaces facts of
       Inl e \<Rightarrow> Inl e
     | Inr ifs \<Rightarrow> Inr (dict_set facts ''interfaces'' (VDict (dict_set ifs key (VDict intf)))))"

definition set_intf_attr :: "pydict \<Rightarrow> string \<Rightarrow> string \<Rightarrow> pyval \<Rightarrow> py_error + pydict" where
  \<comment> \<open>\<^verbatim>\<open>self.facts["interfaces"][key][attr] = v\<close>\<close>
  "set_intf_attr facts key attr v = (case get_intf facts key of
       Inl e \<Rightarrow> Inl e
     | Inr intf \<Rightarrow> set_intf facts key (dict_set intf attr v))"

definition append_intf_attr :: "pydict \<Rightarrow> string \<Rightarrow> string \<Rightarrow> pyval \<Rightarrow> py_error + pydict" where
  \<comment> \<open>\<^verbatim>\<open>self.facts["interfaces"][key][attr].append(v)\<close>\<close>
  "append_intf_attr facts key attr v = (case get_intf facts key of
       Inl e \<Rightarrow> Inl e
     | Inr intf \<Rightarrow> (case dict_get intf attr of
                      Inl e \<Rightarrow> Inl e
                    | Inr (VList xs) \<Rightarrow> set_intf facts key (dict_set intf attr (VList (xs @ [v])))
                    | Inr _ \<Rightarrow> Inl AttributeError))"

definition add_ip_address :: "string \<Rightarrow> string \<Rightarrow> pydict \<Rightarrow> py_error + pydict" where
  "add_ip_address address family facts =
     (let k = (if family = ''ipv4'' then ''all_ipv4_addresses'' else ''all_ipv6_addresses'')
      in case dict_get facts k of
           Inl e \<Rightarrow> Inl e
         | Inr (VList xs) \<Rightarrow> Inr (dict_set facts k (VList (xs @ [VStr address])))
         | Inr _ \<Rightarrow> Inl AttributeError)"

definition parse_deleted_status :: "string \<Rightarrow> string \<Rightarrow> pydict \<Rightarrow> py_error + pydict" where
  "parse_deleted_status interface v facts =
     (let status = parse_operstatus v
      in if status = Some ''deleted''
         then set_intf_attr facts interface ''operstatus'' (opt_val status)
         else Inr facts)"

definition open_record :: "string \<Rightarrow> string \<Rightarrow> string \<Rightarrow> pydict \<Rightarrow> py_error + pydict" where
  \<comment> \<open>The \<^verbatim>\<open>try\<close> statement that opens the loop body of \<^verbatim>\<open>populate_ipv4_interfaces\<close>
      (with \<open>family\<close> \<^verbatim>\<open>"ipv4"\<close>) and of \<^verbatim>\<open>populate_ipv6_interfaces\<close> (with \<^verbatim>\<open>"ipv6"\<close>):
      the empty list is stored in the record of \<open>key\<close>; on KeyError the handler creates
      the record, stores the empty list and calls \<^verbatim>\<open>parse_deleted_status\<close>. A
      KeyError raised inside the handler is not caught.\<close>
  "open_record family key v facts =
     (case set_intf_attr facts key family (VList []) of
        Inr f \<Rightarrow> Inr f
      | Inl KeyError \<Rightarrow>
          (case set_intf facts key [] of
             Inl e \<Rightarrow> Inl e
           | Inr f1 \<Rightarrow>
               (case set_intf_attr f1 key family (VList []) of
                  Inl e \<Rightarrow> Inl e
                | Inr f2 \<Rightarrow> parse_deleted_status key v f2))
      | Inl e \<Rightarrow> Inl e)"

definition re_internet_address :: regex where
  \<comment> \<open>\<^verbatim>\<open>Internet address is (.+)$\<close> under \<^verbatim>\<open>re.M\<close>\<close>
  "re_internet_address = Seqs [Lit ''Internet address is '', Grp 1 (Plus Dot), EolM]"

definition re_secondary_address :: regex where
  \<comment> \<open>\<^verbatim>\<open>Secondary address (.+)$\<close> under \<^verbatim>\<open>re.M\<close>\<close>
  "re_secondary_address = Seqs [Lit ''Secondary address '', Grp 1 (Plus Dot), EolM]"

definition address_dict :: "string \<Rightarrow> string \<Rightarrow> pyval" where
  \<comment> \<open>\<^verbatim>\<open>dict(address=addr.strip(), subnet=subnet.strip())\<close>\<close>
  "address_dict addr subnet =
     VDict [(''address'', VStr (strip addr)), (''subnet'', VStr (strip subnet))]"

fun ipv4_address_loop :: "string \<Rightarrow> string list \<Rightarrow> pydict \<Rightarrow> py_error + pydict" where
  "ipv4_address_loop key [] facts = Inr facts"
| "ipv4_address_loop key (address # addresses) facts =
     (case split address ''/'' of
        [addr, subnet] \<Rightarrow>
          (case add_ip_address (strip addr) ''ipv4'' facts of
             Inl e \<Rightarrow> Inl e
           | Inr f1 \<Rightarrow>
               (case append_intf_attr f1 key ''ipv4'' (address_dict addr subnet) of
                  Inl e \<Rightarrow> Inl e
                | Inr f2 \<Rightarrow> ipv4_address_loop key addresses f2))
      | _ \<Rightarrow> Inl ValueError)"

definition ipv4_block :: "string \<times> string \<Rightarrow> pydict \<Rightarrow> py_error + pydict" where
  \<comment> \<open>the loop body of \<^verbatim>\<open>populate_ipv4_interfaces\<close> for one item of \<^verbatim>\<open>data\<close>\<close>
  "ipv4_block kv facts =
     (case open_record ''ipv4'' (fst kv) (snd kv) facts of
        Inl e \<Rightarrow> Inl e
      | Inr f \<Rightarrow>
          (let primary_address = re_findall re_internet_address (snd kv);
               addresses = re_findall re_secondary_address (snd kv)
           in case primary_address of
                [] \<Rightarrow> Inr f
              | p # _ \<Rightarrow> ipv4_address_loop (fst kv) (addresses @ [p]) f))"

fun populate_ipv4_interfaces :: "blocks \<Rightarrow> pydict \<Rightarrow> py_error + pydict" where
  "populate_ipv4_interfaces [] facts = Inr facts"
| "populate_ipv4_interfaces (kv # data) facts =
     (case ipv4_block kv facts of
        Inl e \<Rightarrow> Inl e
      | Inr f \<Rightarrow> populate_ipv4_interfaces data f)"

definition re_ipv6_address :: regex where
  \<comment> \<open>\<^verbatim>\<open>\s+(.+), subnet\<close> under \<^verbatim>\<open>re.M\<close>\<close>
  "re_ipv6_address = Seqs [Plus Space, Grp 1 (Plus Dot), Lit '', subnet'']"

definition re_ipv6_subnet :: regex where
  \<comment> \<open>\<^verbatim>\<open>, subnet is (.+)$\<close> under \<^verbatim>\<open>re.M\<close>\<close>
  "re_ipv6_subnet = Seqs [Lit '', subnet is '', Grp 1 (Plus Dot), EolM]"

fun ipv6_address_loop :: "string \<Rightarrow> (string \<times> string) list \<Rightarrow> pydict \<Rightarrow> py_error + pydict" where
  "ipv6_address_loop key [] facts = Inr facts"
| "ipv6_address_loop key ((addr, subnet) # pairs) facts =
     (case add_ip_address (strip addr) ''ipv6'' facts of
        Inl e \<Rightarrow> Inl e
      | Inr f1 \<Rightarrow>
          (case append_intf_attr f1 key ''ipv6'' (address_dict addr subnet) of
             Inl e \<Rightarrow> Inl e
           | Inr f2 \<Rightarrow> ipv6_address_loop key pairs f2))"

definition ipv6_block :: "string \<times> string \<Rightarrow> pydict \<Rightarrow> py_error + pydict" where
  \<comment> \<open>the loop body of \<^verbatim>\<open>populate_ipv6_interfaces\<close> for one item of \<^verbatim>\<open>data\<close>\<close>
  "ipv6_block kv facts =
     (case open_record ''ipv6'' (fst kv) (snd kv) facts of
        Inl e \<Rightarrow> Inl e
      | Inr f \<Rightarrow>
          (let addresses = re_findall re_ipv6_address (snd kv);
               subnets = re_findall re_ipv6_subnet (snd kv)
           in ipv6_address_loop (fst kv) (zip addresses subnets) f))"

fun populate_ipv6_interfaces :: "blocks \<Rightarrow> pydict \<Rightarrow> py_error + pydict" where
  "populate_ipv6_interfaces [] facts = Inr facts"
| "populate_ipv6_interfaces (kv # data) facts =
     (case ipv6_block kv facts of
        Inl e \<Rightarrow> Inl e
      | Inr f \<Rightarrow> populate_ipv6_interfaces data f)"

subsection \<open>Neighbours\<close>

definition re_lldp_intf :: regex where
  \<comment> \<open>\<^verbatim>\<open>^Local Intf: (.+)$\<close> under \<^verbatim>\<open>re.M\<close>\<close>
  "re_lldp_intf = Seqs [BolM, Lit ''Local Intf: '', Grp 1 (Plus Dot), EolM]"

definition parse_lldp_intf :: "string \<Rightarrow> string option" where
  "parse_lldp_intf data = search_group re_lldp_intf data"

definition re_lldp_host :: regex where
  \<comment> \<open>\<^verbatim>\<open>System Name: (.+)$\<close> under \<^verbatim>\<open>re.M\<close>\<close>
  "re_lldp_host = Seqs [Lit ''System Name: '', Grp 1 (Plus Dot), EolM]"

definition parse_lldp_host :: "string \<Rightarrow> string option" where
  "parse_lldp_host data = search_group re_lldp_host data"

definition re_lldp_port :: regex where
  \<comment> \<open>\<^verbatim>\<open>Port id: (.+)$\<close> under \<^verbatim>\<open>re.M\<close>\<close>
  "re_lldp_port = Seqs [Lit ''Port id: '', Grp 1 (Plus Dot), EolM]"

definition parse_lldp_port :: "string \<Rightarrow> string option" where
  "parse_lldp_port data = search_group re_lldp_port data"

definition re_lldp_ip :: regex where
  \<comment> \<open>\<^verbatim>\<open>^    IP: (.+)$\<close> under \<^verbatim>\<open>re.M\<close>\<close>
  "re_lldp_ip = Seqs [BolM, Lit ''    IP: '', Grp 1 (Plus Dot), EolM]"

definition parse_lldp_ip :: "string \<Rightarrow> string option" where
  "parse_lldp_ip data = search_group re_lldp_ip data"

definition list_append_at :: "pydict \<Rightarrow> string \<Rightarrow> pyval \<Rightarrow> pydict" where
  \<comment> \<open>\<^verbatim>\<open>facts[k].append(v)\<close> where \<^verbatim>\<open>facts[k]\<close> is a list\<close>
  "list_append_at facts k v =
     dict_set facts k (VList ((case map_of facts k of Some (VList xs) \<Rightarrow> xs | _ \<Rightarrow> []) @ [v]))"

definition lldp_separator :: string where
  \<comment> \<open>the 48 dashes that \<^verbatim>\<open>parse_neighbors\<close> splits at\<close>
  "lldp_separator = replicate 48 (CHR ''-'')"

definition lldp_fact :: "string \<Rightarrow> pyval" where
  "lldp_fact entry =
     VDict [(''host'', opt_val (parse_lldp_host entry)),
            (''port'', opt_val (parse_lldp_port entry)),
            (''ip'', opt_val (parse_lldp_ip entry))]"

fun neighbors_loop :: "(string \<Rightarrow> string) \<Rightarrow> string list \<Rightarrow> pydict \<Rightarrow> pydict" where
  \<comment> \<open>the loop of \<^verbatim>\<open>parse_neighbors\<close> over the entries; \<open>normalize_interface\<close> is the
      helper of that name, which is imported from another module\<close>
  "neighbors_loop normalize_interface [] facts = facts"
| "neighbors_loop normalize_interface (entry # entries) facts =
     (if entry = [] then neighbors_loop normalize_interface entries facts
      else case parse_lldp_intf entry of
             None \<Rightarrow> facts
           | Some i \<Rightarrow>
               (let intf = normalize_interface i;
                    f1 = (if \<not> dict_has facts intf then dict_set facts intf (VList [])
                          else facts)
                in neighbors_loop normalize_interface entries
                     (list_append_at f1 intf (lldp_fact entry))))"

definition parse_neighbors :: "(string \<Rightarrow> string) \<Rightarrow> string \<Rightarrow> pydict" where
  "parse_neighbors normalize_interface neighbors =
     neighbors_loop normalize_interface (split neighbors lldp_separator) []"

definition re_cdp_intf_port :: regex where
  \<comment> \<open>\<^verbatim>\<open>^Interface: (.+),  Port ID \(outgoing port\): (.+)$\<close> under \<^verbatim>\<open>re.M\<close>\<close>
  "re_cdp_intf_port =
     Seqs [BolM, Lit ''Interface: '', Grp 1 (Plus Dot), Lit '',  Port ID (outgoing port): '',
           Grp 2 (Plus Dot), EolM]"

definition parse_cdp_intf_port :: "string \<Rightarrow> (string option \<times> string option) option" where
  "parse_cdp_intf_port data =
     (case re_search re_cdp_intf_port data of
        None \<Rightarrow> None
      | Some m \<Rightarrow> Some (group m 1, group m 2))"

definition re_cdp_host :: regex where
  \<comment> \<open>\<^verbatim>\<open>^Device ID: (.+)$\<close> under \<^verbatim>\<open>re.M\<close>\<close>
  "re_cdp_host = Seqs [BolM, Lit ''Device ID: '', Grp 1 (Plus Dot), EolM]"

definition parse_cdp_host :: "string \<Rightarrow> string option" where
  "parse_cdp_host data = search_group re_cdp_host data"

definition re_cdp_platform :: regex where
  \<comment> \<open>\<^verbatim>\<open>^Platform: (.+),\<close> under \<^verbatim>\<open>re.M\<close>\<close>
  "re_cdp_platform = Seqs [BolM, Lit ''Platform: '', Grp 1 (Plus Dot), Lit '','']"

definition parse_cdp_platform :: "string \<Rightarrow> string option" where
  "parse_cdp_platform data = search_group re_cdp_platform data"

definition re_cdp_ip :: regex where
  \<comment> \<open>\<^verbatim>\<open>^  IP address: (.+)$\<close> under \<^verbatim>\<open>re.M\<close>\<close>
  "re_cdp_ip = Seqs [BolM, Lit ''  IP address: '', Grp 1 (Plus Dot), EolM]"

definition parse_cdp_ip :: "string \<Rightarrow> string option" where
  "parse_cdp_ip data = search_group re_cdp_ip data"

definition cdp_separator :: string where
  \<comment> \<open>the 25 dashes that \<^verbatim>\<open>parse_cdp_neighbors\<close> splits at\<close>
  "cdp_separator = replicate 25 (CHR ''-'')"

fun cdp_neighbors_loop :: "string list \<Rightarrow> pydict \<Rightarrow> pydict" where
  "cdp_neighbors_loop [] facts = facts"
| "cdp_neighbors_loop (entry # entries) facts =
     (if entry = [] then cdp_neighbors_loop entries facts
      else case parse_cdp_intf_port entry of
             None \<Rightarrow> facts
           | Some (i, port) \<Rightarrow>
               (let intf = (case i of None \<Rightarrow> [] | Some x \<Rightarrow> x);
                    f1 = (if \<not> dict_has facts intf then dict_set facts intf (VList [])
                          else facts)
                in cdp_neighbors_loop entries
                     (list_append_at f1 intf
                        (VDict [(''host'', opt_val (parse_cdp_host entry)),
                                (''platform'', opt_val (parse_cdp_platform entry)),
                                (''port'', opt_val port),
                                (''ip'', opt_val (parse_cdp_ip entry))]))))"

definition parse_cdp_neighbors :: "string \<Rightarrow> pydict" where
  "parse_cdp_neighbors neighbors = cdp_neighbors_loop (split neighbors cdp_separator) []"

subsection \<open>The whole extractor\<close>

definition update_neighbors :: "pydict \<Rightarrow> pydict \<Rightarrow> py_error + pydict" where
  \<comment> \<open>\<^verbatim>\<open>self.facts["neighbors"].update(found)\<close>\<close>
  "update_neighbors facts found = (case dict_get facts ''neighbors'' of
       Inl e \<Rightarrow> Inl e
     | Inr (VDict d) \<Rightarrow> Inr (dict_set facts ''neighbors'' (VDict (dict_update_all d found)))
     | Inr _ \<Rightarrow> Inl AttributeError)"

definition Interfaces_populate ::
  "(string \<Rightarrow> string) \<Rightarrow> string list \<Rightarrow> string list \<Rightarrow>
   string \<Rightarrow> string \<Rightarrow> string \<Rightarrow> string \<Rightarrow> string \<Rightarrow> py_error + pydict" where
  \<comment> \<open>\<open>r0\<close> to \<open>r4\<close> are the responses to \<^verbatim>\<open>show interfaces\<close>, \<^verbatim>\<open>show ip interface\<close>,
      \<^verbatim>\<open>show ipv6 interface\<close>, \<^verbatim>\<open>show lldp\<close> and \<^verbatim>\<open>show cdp\<close>; \<open>lldp_detail\<close> and
      \<open>cdp_detail\<close> are what \<^verbatim>\<open>self.run\<close> returns for the two neighbour commands\<close>
  "Interfaces_populate normalize_interface lldp_detail cdp_detail r0 r1 r2 r3 r4 =
     (let f0 = [(''all_ipv4_addresses'', VList []), (''all_ipv6_addresses'', VList []),
                (''neighbors'', VDict [])]
      in case (if r0 \<noteq> [] then
                 (case parse_interfaces r0 of
                    Inl e \<Rightarrow> Inl e
                  | Inr interfaces \<Rightarrow>
                      Inr (dict_set f0 ''interfaces'' (VDict (populate_interfaces interfaces))))
               else Inr f0) of
           Inl e \<Rightarrow> Inl e
         | Inr f1 \<Rightarrow>
       (case (if r1 \<noteq> [] then
                (case parse_interfaces r1 of
                   Inl e \<Rightarrow> Inl e
                 | Inr data \<Rightarrow> populate_ipv4_interfaces data f1)
              else Inr f1) of
           Inl e \<Rightarrow> Inl e
         | Inr f2 \<Rightarrow>
       (case (if r2 \<noteq> [] then
                (case parse_interfaces r2 of
                   Inl e \<Rightarrow> Inl e
                 | Inr data \<Rightarrow> populate_ipv6_interfaces data f2)
              else Inr f2) of
           Inl e \<Rightarrow> Inl e
         | Inr f3 \<Rightarrow>
       (case (if r3 \<noteq> [] \<and> \<not> list_ex (\<lambda>err. contains err r3)
                                    [''Invalid input'', ''LLDP is not enabled'']
              then (case lldp_detail of
                      [] \<Rightarrow> Inr f3
                    | n # _ \<Rightarrow> update_neighbors f3 (parse_neighbors normalize_interface n))
              else Inr f3) of
           Inl e \<Rightarrow> Inl e
         | Inr f4 \<Rightarrow>
           (if r4 \<noteq> [] \<and> \<not> list_ex (\<lambda>err. contains err r4) [''CDP is not enabled'']
            then (case cdp_detail of
                    [] \<Rightarrow> Inr f4
                  | n # _ \<Rightarrow> update_neighbors f4 (parse_cdp_neighbors n))
            else Inr f4)))))"

section \<open>Example inputs\<close>

definition version_text :: string where
  "version_text =
     ''board ID FXS12345\<newline>System Serial Number : ABC999\<newline>Model Number : WS-C123''"

definition two_mode_lines :: string where
  "two_mode_lines =
     ''Cisco IOS-XE Software\<newline>Router operating mode: Controller-Managed\<newline>Router operating mode: Autonomous\<newline>''"

definition memory_text :: string where
  "memory_text =
     ''                Head    Total(b)     Used(b)     Free(b)\<newline>Processor  7F51D10   1048577   524288   524289\<newline>''"

definition dir_text :: string where
  "dir_text =
     ''Directory of flash:/\<newline>\<newline>    1  -rw-   2049  Jan 1 2020 00:00:00 +00:00  vlan.dat\<newline>\<newline>3073 bytes total (1025 bytes free)\<newline>''"

definition cpu_line_no_percent :: string where
  "cpu_line_no_percent = ''CPU utilization for five seconds:; one minute: %; five minutes: %''"

definition banner_text :: string where
  "banner_text =
     ''Building configuration...\<newline>\<newline>Current configuration : 1234 bytes\<newline>!\<newline>hostname R1\<newline>\<newline>interface Gi0/1\<newline>''"

definition two_line_block :: string where
  "two_line_block = ''Gi0/1 line one\<newline>  continuation''"

definition caret_text :: string where
  "caret_text = ''   ^\<newline>% Invalid input detected at '^' marker.\<newline>''"

definition up_block :: string where
  "up_block = ''Gi0/1 is up, line protocol is up''"

definition deleted_block :: string where
  "deleted_block =
     ''Gi0/9 is deleted, line protocol is down\<newline>  Internet address is 10.0.0.9/24''"

definition lldp_seg1 :: string where
  "lldp_seg1 = ''\<newline>Local Intf: Gi0/1\<newline>Port id: Gi0/5\<newline>System Name: sw1\<newline>''"

definition lldp_seg2 :: string where
  "lldp_seg2 = ''\<newline>Port id: Gi0/6\<newline>System Name: sw2\<newline>''"

definition lldp_seg3 :: string where
  "lldp_seg3 = ''\<newline>Local Intf: Gi0/3\<newline>Port id: Gi0/7\<newline>System Name: sw3\<newline>''"

definition lldp_fact1 :: pyval where
  "lldp_fact1 =
     VDict [(''host'', VStr ''sw1''), (''port'', VStr ''Gi0/5''), (''ip'', VNone)]"

definition lldp_fact3 :: pyval where
  "lldp_fact3 = VDict [(''host'', VStr ''sw3''), (''port'', VStr ''Gi0/7''), (''ip'', VNone)]"

definition ipv6_block_text :: string where
  "ipv6_block_text =
     ''Gi0/2 is up\<newline>  A1, subnet\<newline>  A2, subnet\<newline>, subnet is P1\<newline>, subnet is P2''"

definition ipv6_interleaved_text :: string where
  "ipv6_interleaved_text =
     ''Gi0/2 is up\<newline>  A1, subnet\<newline>, subnet is P1\<newline>  A2, subnet\<newline>, subnet is P2''"

definition ready_facts :: pydict where
  \<comment> \<open>the facts of \<^verbatim>\<open>Interfaces.populate\<close> after a \<^verbatim>\<open>show interfaces\<close> that lists Gi0/1\<close>
  "ready_facts =
     [(''all_ipv4_addresses'', VList []), (''all_ipv6_addresses'', VList []),
      (''neighbors'', VDict []),
      (''interfaces'', VDict (populate_interfaces [(''Gi0/1'', up_block)]))]"

definition processor_line :: string where
  "processor_line = ''Processor  7F51D10   1048577   524288   524289''"

definition bytes_total_line :: string where
  "bytes_total_line = ''3073 bytes total (1025 bytes free)''"

definition lldp_text :: string where
  \<comment> \<open>three segments, the second without a \<^verbatim>\<open>Local Intf:\<close> line\<close>
  "lldp_text = lldp_seg1 @ lldp_separator @ lldp_seg2 @ lldp_separator @ lldp_seg3"

definition lldp_text_empty_segment :: string where
  \<comment> \<open>three segments, the second empty\<close>
  "lldp_text_empty_segment = lldp_seg1 @ lldp_separator @ lldp_separator @ lldp_seg3"
section \<open>Byte counts are converted by true division\<close>

subsection \<open>Floats that are exact\<close>

lemma pow2_powi: "pow2 e = 2 powi e"
  by (simp add: pow2_def power_int_def inverse_eq_divide power_one_over)

lemma pow2_pos: "0 < pow2 e"
  by (simp add: pow2_def)

lemma pow2_nat: "0 \<le> e \<Longrightarrow> pow2 e = 2 ^ nat e"
  by (simp add: pow2_def)

lemma floor_log2_le:
  assumes "0 < q"
  shows "pow2 (floor_log2 q) \<le> q"
proof -
  obtain n d where nd: "quotient_of q = (n, d)" by (cases "quotient_of q")
  have d: "0 < d" using nd by (rule quotient_of_denom_pos)
  have q: "q = of_int n / of_int d" using nd by (rule quotient_of_div)
  have n: "0 < n" using assms d q by (simp add: zero_less_divide_iff)
  let ?e0 = "bitlen n - bitlen d"
  show ?thesis
  proof (cases "pow2 ?e0 \<le> q")
    case True
    then show ?thesis by (simp add: floor_log2_def nd)
  next
    case False
    have bn: "1 \<le> bitlen n" using n by (simp add: bitlen_alt_def)
    have bd: "1 \<le> bitlen d" using d by (simp add: bitlen_alt_def)
    have "(2::int) ^ nat (bitlen n - 1) \<le> n" using bitlen_bounds [OF n] by simp
    then have "of_int ((2::int) ^ nat (bitlen n - 1)) \<le> (of_int n :: rat)"
      by (simp only: of_int_le_iff)
    then have lo: "(2::rat) powi (bitlen n - 1) \<le> of_int n"
      using bn by (simp add: power_int_def)
    have "d < 2 ^ nat (bitlen d)" using bitlen_bounds [OF d] by simp
    then have "(of_int d :: rat) < of_int ((2::int) ^ nat (bitlen d))"
      by (simp only: of_int_less_iff)
    then have hi: "of_int d \<le> (2::rat) powi (bitlen d)"
      using bd by (simp add: power_int_def)
    have "pow2 (?e0 - 1) = (2::rat) powi ((bitlen n - 1) - bitlen d)"
      by (simp add: pow2_powi algebra_simps)
    also have "\<dots> = 2 powi (bitlen n - 1) / 2 powi (bitlen d)"
      by (rule power_int_diff) simp
    also have "\<dots> \<le> of_int n / of_int d"
      by (rule frac_le) (use lo hi d n in auto)
    finally have "pow2 (?e0 - 1) \<le> q" using q by simp
    with False show ?thesis by (simp add: floor_log2_def nd)
  qed
qed

lemma round_half_even_int: "round_half_even (of_int m) = m"
  by (simp add: round_half_even_def)

lemma float_round_pos:
  "0 < q \<Longrightarrow>
   float_round q =
     (let e = max (floor_log2 q) (- 1022);
          u = pow2 (e - 52);
          r = of_int (round_half_even (q / u)) * u
      in if pow2 1024 \<le> r then None else Some r)"
  by (simp add: float_round_def Let_def)

lemma float_round_exact:
  assumes a: "0 < a" "a < 2 ^ 53" and k: "k \<le> 1000"
  shows "float_round (of_int a / 2 ^ k) = Some (of_int a / 2 ^ k)"
proof -
  let ?x = "of_int a / 2 ^ k :: rat"
  have xpos: "0 < ?x" using a by simp
  have xlt: "?x < pow2 (53 - int k)"
  proof -
    have "(of_int a :: rat) < of_int (2 ^ 53)" using a(2) by (simp only: of_int_less_iff)
    then have "(of_int a :: rat) < 2 ^ 53" by simp
    then have "?x < 2 ^ 53 / 2 ^ k" by (simp add: divide_strict_right_mono)
    also have "\<dots> = (2::rat) powi (53 - int k)"
      by (subst power_int_diff) (simp_all add: power_int_def)
    finally show ?thesis by (simp add: pow2_powi)
  qed
  have "pow2 (floor_log2 ?x) < pow2 (53 - int k)"
    using floor_log2_le [OF xpos] xlt by (rule le_less_trans)
  then have lt: "(2::rat) powi (floor_log2 ?x) < 2 powi (53 - int k)"
    by (simp only: pow2_powi)
  have "floor_log2 ?x < 53 - int k"
  proof (rule ccontr)
    assume "\<not> floor_log2 ?x < 53 - int k"
    then have "53 - int k \<le> floor_log2 ?x" by simp
    then have "(2::rat) powi (53 - int k) \<le> 2 powi (floor_log2 ?x)"
      by (rule power_int_increasing) simp
    with lt show False by simp
  qed
  then have fl: "floor_log2 ?x \<le> 52 - int k" by simp
  define e where "e = max (floor_log2 ?x) (- 1022)"
  have e: "e \<le> 52 - int k" using fl k by (simp add: e_def)
  define j where "j = nat (52 - int k - e)"
  have j: "int j = 52 - int k - e" using e by (simp add: j_def)
  have u: "?x / pow2 (e - 52) = of_int (a * 2 ^ j)"
  proof -
    have "(2::rat) powi (int k + (e - 52) + int j) = 2 powi (int k + (e - 52)) * 2 powi (int j)"
      by (rule power_int_add) simp
    moreover have "int k + (e - 52) + int j = 0" using j by simp
    ultimately have one: "(2::rat) powi (int k + (e - 52)) * 2 ^ j = 1" by simp
    have "(2::rat) powi (int k + (e - 52)) = 2 powi (int k) * 2 powi (e - 52)"
      by (rule power_int_add) simp
    then have two: "(2::rat) ^ k * pow2 (e - 52) * 2 ^ j = 1" using one by (simp add: pow2_powi)
    define P where "P = (2::rat) ^ k * pow2 (e - 52)"
    have P: "P \<noteq> 0" using pow2_pos [of "e - 52"] by (simp add: P_def)
    have "P * 2 ^ j = 1" using two by (simp add: P_def)
    then have inv: "(2::rat) ^ j = 1 / P"
      using P by (simp add: nonzero_eq_divide_eq mult.commute)
    have "?x / pow2 (e - 52) = of_int a * (1 / P)" by (simp add: P_def)
    also have "\<dots> = of_int a * 2 ^ j"
      by (simp only: inv)
    finally show ?thesis by simp
  qed
  have r: "of_int (round_half_even (?x / pow2 (e - 52))) * pow2 (e - 52) = ?x"
  proof -
    have "of_int (round_half_even (?x / pow2 (e - 52))) = ?x / pow2 (e - 52)"
      unfolding u round_half_even_int ..
    then show ?thesis using pow2_pos [of "e - 52"] by simp
  qed
  have big: "\<not> pow2 1024 \<le> ?x"
  proof -
    have "pow2 (53 - int k) \<le> pow2 1024"
      unfolding pow2_powi by (rule power_int_increasing) simp_all
    with xlt show ?thesis by simp
  qed
  have "float_round ?x = (if pow2 1024 \<le> ?x then None else Some ?x)"
    unfolding float_round_pos [OF xpos] Let_def e_def [symmetric] r ..
  with big show ?thesis by simp
qed

lemma py_truediv_exact:
  assumes "0 \<le> a" "a < 2 ^ 53" "k \<le> 1000"
  shows "py_truediv a (2 ^ k) = Inr (of_int a / 2 ^ k)"
proof (cases "a = 0")
  case True
  then show ?thesis by (simp add: py_truediv_def float_round_def)
next
  case False
  then have "0 < a" using assms by simp
  from float_round_exact [OF this assms(2,3)] show ?thesis
    by (simp add: py_truediv_def)
qed

subsection \<open>Dictionaries\<close>

lemma digits_val_nonneg: "list_all is_digit s \<Longrightarrow> 0 \<le> acc \<Longrightarrow> 0 \<le> digits_val acc s"
  by (induction s arbitrary: acc) (auto simp: is_digit_def Let_def)

lemma py_int_nonneg: "py_int x = Inr n \<Longrightarrow> 0 \<le> n"
  by (auto simp: py_int_def digits_val_nonneg split: option.splits if_splits)

lemma bytes_div_exact:
  assumes "py_int x = Inr n" "n < 2 ^ 53" "k \<le> 1000"
  shows "bytes_div x (2 ^ k) = Inr (VFloat (of_int n / 2 ^ k))"
  using assms py_truediv_exact [OF py_int_nonneg [OF assms(1)] assms(2,3)]
  by (simp add: bytes_div_def)

lemma quotient_is_truncated_iff:
  assumes "k \<noteq> 0"
  shows "((of_int t :: rat) / of_int k = of_int (t div k)) = (k dvd t)"
proof
  assume "(of_int t :: rat) / of_int k = of_int (t div k)"
  then have "(of_int t :: rat) = of_int (t div k) * of_int k"
    using assms by (simp add: field_simps)
  also have "\<dots> = of_int (k * (t div k))"
    by simp
  finally have "t = k * (t div k)"
    by (rule of_int_eq_iff [THEN iffD1])
  then show "k dvd t"
    by (rule dvdI)
next
  assume "k dvd t"
  then obtain q where q: "t = k * q"
    by (rule dvdE)
  have "(of_int (k * q) :: rat) / of_int k = of_int (k * q div k)"
    using assms by simp
  then show "(of_int t :: rat) / of_int k = of_int (t div k)"
    unfolding q .
qed

lemma set_space_present:
  "map_of info fs = Some (VDict d) \<Longrightarrow>
   set_space info fs k v = Inr (dict_set info fs (VDict (dict_set d k v)))"
  by (simp add: set_space_def dict_get_def)

lemma map_of_dict_set: "map_of (dict_set d k v) k' = (if k' = k then Some v else map_of d k')"
  by (simp add: dict_set_def update_conv')

lemma dict_set_twice: "dict_set (dict_set d k v) k w = dict_set d k w"
  by (simp add: dict_set_def)

subsection \<open>The conversions\<close>

text \<open>
  C1. The claim is that the space of a filesystem and the memory are converted by
  truncating integer division of the byte counts by 1024 and by 1048576, so that a total
  of 1048577 bytes gives \<^verbatim>\<open>memtotal_mb = 1\<close>. The module divides with \<^verbatim>\<open>/\<close> under
  \<^verbatim>\<open>from __future__ import division\<close>: the result is a float, and for 1048577 bytes it
  is 1048577/1048576.
\<close>

theorem memtotal_not_truncated:
  "Hardware_populate [] memory_text [] =
     Inr [(''cpu_utilization'', VDict []),
          (''memtotal_mb'', VFloat (1048577 / 1048576)),
          (''memfree_mb'', VFloat (524289 / 1048576))]
   \<and> VFloat (1048577 / 1048576) \<noteq> VFloat 1
   \<and> VFloat (1048577 / 1048576) \<noteq> VInt 1"
proof -
  have "Hardware_populate [] memory_text [] =
     Inr [(''cpu_utilization'', VDict []),
          (''memtotal_mb'', VFloat (1048577 / 1048576)),
          (''memfree_mb'', VFloat (524289 / 1048576))]"
    by code_simp
  then show ?thesis by simp
qed

text \<open>
  C1, as the module has it. For a line of \<^verbatim>\<open>show memory statistics\<close> that the
  \<^verbatim>\<open>Processor\<close> pattern matches, and for a line \<^verbatim>\<open>N bytes total (M bytes free)\<close> of
  \<^verbatim>\<open>dir\<close> under an open filesystem, with byte counts below \<open>2\<^sup>5\<^sup>3\<close>: the facts hold the
  exact quotients of the byte counts by 1048576 and by 1024, as floats. Such a quotient
  is the truncated one only when the divisor divides the byte count.
\<close>

theorem conversions_true_division:
  assumes "re_match re_processor line = Some m"
    and "py_int (group m 2) = Inr t" and "py_int (group m 3) = Inr f"
    and "t < 2 ^ 53" and "f < 2 ^ 53"
    and "re_match re_directory line' = None"
    and "re_match re_bytes_total line' = Some m'"
    and "py_int (group m' 1) = Inr t'" and "py_int (group m' 2) = Inr f'"
    and "t' < 2 ^ 53" and "f' < 2 ^ 53"
    and "map_of info fs = Some (VDict d)"
  shows "memory_line line facts =
           Inr (dict_set (dict_set facts ''memtotal_mb'' (VFloat (of_int t / 1048576)))
                  ''memfree_mb'' (VFloat (of_int f / 1048576)))
         \<and> filesystems_info_loop (line' # lines) fs info =
           filesystems_info_loop lines fs
             (dict_set info fs
                (VDict (dict_set (dict_set d ''spacetotal_kb'' (VFloat (of_int t' / 1024)))
                          ''spacefree_kb'' (VFloat (of_int f' / 1024)))))
         \<and> ((of_int t / 1048576 :: rat) = of_int (t div 1048576)) = (1048576 dvd t)
         \<and> ((of_int t' / 1024 :: rat) = of_int (t' div 1024)) = (1024 dvd t')"
proof -
  have mt: "bytes_div (group m 2) 1048576 = Inr (VFloat (of_int t / 1048576))"
    using bytes_div_exact [OF assms(2,4), of 20] by simp
  have mf: "bytes_div (group m 3) 1048576 = Inr (VFloat (of_int f / 1048576))"
    using bytes_div_exact [OF assms(3,5), of 20] by simp
  have ft: "bytes_div (group m' 1) 1024 = Inr (VFloat (of_int t' / 1024))"
    using bytes_div_exact [OF assms(8,10), of 10] by simp
  have ff: "bytes_div (group m' 2) 1024 = Inr (VFloat (of_int f' / 1024))"
    using bytes_div_exact [OF assms(9,11), of 10] by simp
  have a: "memory_line line facts =
           Inr (dict_set (dict_set facts ''memtotal_mb'' (VFloat (of_int t / 1048576)))
                  ''memfree_mb'' (VFloat (of_int f / 1048576)))"
    by (simp add: memory_line_def assms(1) mt mf)
  have s1: "set_space info fs ''spacetotal_kb'' (VFloat (of_int t' / 1024)) =
            Inr (dict_set info fs (VDict (dict_set d ''spacetotal_kb'' (VFloat (of_int t' / 1024)))))"
    using assms(12) by (rule set_space_present)
  have s2: "set_space (dict_set info fs (VDict (dict_set d ''spacetotal_kb'' (VFloat (of_int t' / 1024)))))
              fs ''spacefree_kb'' (VFloat (of_int f' / 1024)) =
            Inr (dict_set info fs
                (VDict (dict_set (dict_set d ''spacetotal_kb'' (VFloat (of_int t' / 1024)))
                          ''spacefree_kb'' (VFloat (of_int f' / 1024)))))"
    by (simp add: set_space_present map_of_dict_set dict_set_twice)
  have b: "filesystems_info_loop (line' # lines) fs info =
           filesystems_info_loop lines fs
             (dict_set info fs
                (VDict (dict_set (dict_set d ''spacetotal_kb'' (VFloat (of_int t' / 1024)))
                          ''spacefree_kb'' (VFloat (of_int f' / 1024)))))"
    by (simp add: assms(6,7) ft [simplified] ff s1 s2)
  have c: "((of_int t / 1048576 :: rat) = of_int (t div 1048576)) = (1048576 dvd t)"
    using quotient_is_truncated_iff [of 1048576 t] by simp
  have d: "((of_int t' / 1024 :: rat) = of_int (t' div 1024)) = (1024 dvd t')"
    using quotient_is_truncated_iff [of 1024 t'] by simp
  from a b c d show ?thesis by blast
qed

theorem conversions_true_division_witness:
  "memory_line processor_line [] =
     Inr [(''memtotal_mb'', VFloat (1048577 / 1048576)), (''memfree_mb'', VFloat (524289 / 1048576))]
   \<and> filesystems_info_loop [bytes_total_line] ''flash:'' [(''flash:'', VDict [])] =
     Inr [(''flash:'', VDict [(''spacetotal_kb'', VFloat (3073 / 1024)),
                              (''spacefree_kb'', VFloat (1025 / 1024))])]
   \<and> (1048577 / 1048576 :: rat) \<noteq> of_int (1048577 div 1048576)
   \<and> (3073 / 1024 :: rat) \<noteq> of_int (3073 div 1024)"
proof -
  define m where "m = (processor_line, [(1::nat, ''7F51D10''), (2, ''1048577''), (3, ''524289'')])"
  define m' where "m' = (bytes_total_line, [(1::nat, ''3073''), (2, ''1025'')])"
  have h1: "re_match re_processor processor_line = Some m" unfolding m_def by code_simp
  have h2: "py_int (group m 2) = Inr 1048577" unfolding m_def by code_simp
  have h3: "py_int (group m 3) = Inr 524289" unfolding m_def by code_simp
  have h4: "(1048577::int) < 2 ^ 53" by simp
  have h5: "(524289::int) < 2 ^ 53" by simp
  have h6: "re_match re_directory bytes_total_line = None" by code_simp
  have h7: "re_match re_bytes_total bytes_total_line = Some m'" unfolding m'_def by code_simp
  have h8: "py_int (group m' 1) = Inr 3073" unfolding m'_def by code_simp
  have h9: "py_int (group m' 2) = Inr 1025" unfolding m'_def by code_simp
  have h10: "(3073::int) < 2 ^ 53" by simp
  have h11: "(1025::int) < 2 ^ 53" by simp
  have h12: "map_of [(''flash:'', VDict [])] ''flash:'' = Some (VDict [])" by simp
  note th = conversions_true_division [OF h1 h2 h3 h4 h5 h6 h7 h8 h9 h10 h11 h12, of "[]" "[]"]
  have a: "memory_line processor_line [] =
     Inr [(''memtotal_mb'', VFloat (1048577 / 1048576)), (''memfree_mb'', VFloat (524289 / 1048576))]"
    using th [THEN conjunct1] by (simp add: dict_set_def)
  have b: "filesystems_info_loop [bytes_total_line] ''flash:'' [(''flash:'', VDict [])] =
     Inr [(''flash:'', VDict [(''spacetotal_kb'', VFloat (3073 / 1024)),
                              (''spacefree_kb'', VFloat (1025 / 1024))])]"
    using th [THEN conjunct2, THEN conjunct1] by (simp add: dict_set_def)
  have c: "(1048577 / 1048576 :: rat) \<noteq> of_int (1048577 div 1048576)"
    using th [THEN conjunct2, THEN conjunct2, THEN conjunct1] by simp
  have d: "(3073 / 1024 :: rat) \<noteq> of_int (3073 div 1024)"
    using th [THEN conjunct2, THEN conjunct2, THEN conjunct2] by simp
  from a b c d show ?thesis by blast
qed
section \<open>The banner of the running configuration\<close>

text \<open>
  C2. The claim is that a running configuration that starts with the banner
  \<^verbatim>\<open>Building configuration...\<close>, \<^verbatim>\<open>Current configuration : N bytes\<close> is stored without
  it. The pattern of \<^verbatim>\<open>Config.populate\<close> asks for a line feed and sixteen blanks right
  after \<^verbatim>\<open>Building configuration\<close>, where the banner has its three dots, so the
  substitution finds nothing and the text is stored with its banner.
\<close>

theorem config_banner_kept:
  "Config_populate banner_text = [(''config'', VStr banner_text)]"
  by code_simp
section \<open>The block parser\<close>

lemma parse_interfaces_loop_filter:
  "parse_interfaces_loop (filter (\<lambda>l. l \<noteq> []) lines) key parsed =
   parse_interfaces_loop lines key parsed"
  by (induction lines key parsed rule: parse_interfaces_loop.induct)
     (auto split: option.splits)

lemma parse_interfaces_loop_blank:
  "parse_interfaces_loop (before @ [] # after) key parsed =
   parse_interfaces_loop (before @ after) key parsed"
proof -
  have "filter (\<lambda>l. l \<noteq> []) (before @ [] # after) =
        filter (\<lambda>l. l \<noteq> ([]::string)) (before @ after)"
    by simp
  then show ?thesis
    by (metis parse_interfaces_loop_filter)
qed

lemma two_line_block_parsed:
  "parse_interfaces two_line_block = Inr [(''Gi0/1'', ''Gi0/1 line one\<newline>  continuation'')]"
  by code_simp

text \<open>
  C3. The claim is that \<^verbatim>\<open>"Gi0/1 line one\n  continuation"\<close> gives one block for
  \<^verbatim>\<open>Gi0/1\<close> with the value \<^verbatim>\<open>"Gi0/1 line one\ncontinuation"\<close>. The parser appends a
  continuation line as it is, with its leading blanks.
\<close>

theorem continuation_keeps_indent:
  "parse_interfaces two_line_block \<noteq> Inr [(''Gi0/1'', ''Gi0/1 line one\<newline>continuation'')]"
  by code_simp

text \<open>
  C3, as the module has it. The two-line input gives the single block
  \<^verbatim>\<open>"Gi0/1 line one\n  continuation"\<close>, and an empty line never ends a block: the
  loop over the lines gives the same result with an empty line at any place, and with
  all the empty lines removed.
\<close>

theorem parse_interfaces_blocks:
  "parse_interfaces two_line_block = Inr [(''Gi0/1'', ''Gi0/1 line one\<newline>  continuation'')]
   \<and> parse_interfaces_loop (before @ [] # after) key parsed =
     parse_interfaces_loop (before @ after) key parsed
   \<and> parse_interfaces_loop (filter (\<lambda>l. l \<noteq> []) lines) key parsed =
     parse_interfaces_loop lines key parsed"
  using two_line_block_parsed parse_interfaces_loop_blank parse_interfaces_loop_filter
  by blast
section \<open>LLDP neighbours\<close>

lemma neighbors_loop_truncates:
  "bad \<noteq> [] \<Longrightarrow> parse_lldp_intf bad = None \<Longrightarrow>
   neighbors_loop nf (pre @ bad # post) facts = neighbors_loop nf pre facts"
  by (induction pre arbitrary: facts) (auto simp: Let_def split: option.splits)

lemma neighbors_loop_skips_empty:
  "neighbors_loop nf (pre @ [] # post) facts = neighbors_loop nf (pre @ post) facts"
  by (induction pre arbitrary: facts) (auto simp: Let_def split: option.splits)

text \<open>
  C4. The claim is that in a text of three segments whose second segment has no
  \<^verbatim>\<open>Local Intf:\<close> line only the record of the first segment is returned, and that the
  first segment without a local interface cuts off all the later ones. The loop skips
  an empty segment (\<^verbatim>\<open>if entry == "": continue\<close>) before it looks for the interface:
  with an empty second segment the record of the third segment is returned too.
\<close>

theorem empty_segment_is_skipped:
  "split lldp_text_empty_segment lldp_separator = [lldp_seg1, [], lldp_seg3]
   \<and> parse_lldp_intf [] = None
   \<and> parse_neighbors (\<lambda>i. i) lldp_text_empty_segment =
     [(''Gi0/1'', VList [lldp_fact1]), (''Gi0/3'', VList [lldp_fact3])]"
proof -
  have s: "split lldp_text_empty_segment lldp_separator = [lldp_seg1, [], lldp_seg3]"
    by code_simp
  have n: "parse_lldp_intf [] = None"
    by code_simp
  have "neighbors_loop (\<lambda>i. i) [lldp_seg1, [], lldp_seg3] [] =
        [(''Gi0/1'', VList [lldp_fact1]), (''Gi0/3'', VList [lldp_fact3])]"
    by code_simp
  with s n show ?thesis
    by (simp add: parse_neighbors_def)
qed

text \<open>
  C4, as the module has it. A segment that is not empty and has no \<^verbatim>\<open>Local Intf:\<close>
  line ends the parse: the result is that of the segments before it, whatever follows.
  An empty segment is skipped and cuts nothing off.
\<close>

theorem parse_neighbors_truncates:
  assumes "split neighbors lldp_separator = pre @ bad # post"
    and "bad \<noteq> []"
    and "parse_lldp_intf bad = None"
  shows "parse_neighbors nf neighbors = neighbors_loop nf pre []
         \<and> neighbors_loop nf (xs @ [] # ys) facts = neighbors_loop nf (xs @ ys) facts"
  using assms neighbors_loop_truncates [of bad nf pre post "[]"] neighbors_loop_skips_empty
  by (simp add: parse_neighbors_def)

theorem parse_neighbors_truncates_witness:
  "split lldp_text lldp_separator = [lldp_seg1] @ lldp_seg2 # [lldp_seg3]
   \<and> lldp_seg2 \<noteq> []
   \<and> parse_lldp_intf lldp_seg2 = None
   \<and> parse_neighbors (\<lambda>i. i) lldp_text = [(''Gi0/1'', VList [lldp_fact1])]"
proof -
  have h1: "split lldp_text lldp_separator = [lldp_seg1] @ lldp_seg2 # [lldp_seg3]"
    by code_simp
  have h2: "lldp_seg2 \<noteq> []"
    by code_simp
  have h3: "parse_lldp_intf lldp_seg2 = None"
    by code_simp
  have first: "neighbors_loop (\<lambda>i. i) [lldp_seg1] [] = [(''Gi0/1'', VList [lldp_fact1])]"
    by code_simp
  have "parse_neighbors (\<lambda>i. i) lldp_text = neighbors_loop (\<lambda>i. i) [lldp_seg1] []"
    using parse_neighbors_truncates [OF h1 h2 h3] by (rule conjunct1)
  with h1 h2 h3 first show ?thesis
    by simp
qed
section \<open>Responses that carry an error\<close>

text \<open>
  C5. The claim is that no parse function raises on an empty or error-marked response.
  The block parser appends an indented line to \<^verbatim>\<open>parsed[key]\<close> with \<^verbatim>\<open>key = ""\<close> when
  no block is open yet, which is a KeyError: the caret line of the error text of the
  device is such a line. The address passes have a second way to the same exception:
  their handler for a missing record assigns into \<^verbatim>\<open>self.facts["interfaces"]\<close>, which
  does not exist when the response to \<^verbatim>\<open>show interfaces\<close> was empty.
\<close>

theorem parse_interfaces_raises:
  "parse_interfaces caret_text = Inl KeyError
   \<and> Interfaces_populate (\<lambda>i. i) [] [] up_block caret_text [] [] [] = Inl KeyError
   \<and> Interfaces_populate (\<lambda>i. i) [] [] [] deleted_block [] [] [] = Inl KeyError"
  by code_simp
section \<open>The CPU utilization parser is partial\<close>

text \<open>
  C10. The pattern of \<^verbatim>\<open>parse_cpu_utilization\<close> accepts a line in which neither of the
  two five-second groups (\<^verbatim>\<open>f_sec\<close>, group 5, and \<^verbatim>\<open>f_se_nom\<close>, group 7) takes part,
  for example \<^verbatim>\<open>CPU utilization for five seconds:; one minute: %; five minutes: %\<close>.
  On that line \<^verbatim>\<open>int(None)\<close> raises TypeError, so the parser returns no facts.
\<close>

theorem parse_cpu_utilization_raises:
  "re_match re_cpu_utilization cpu_line_no_percent = Some (cpu_line_no_percent, [(3, [])])
   \<and> group (cpu_line_no_percent, [(3, [])]) 5 = None
   \<and> group (cpu_line_no_percent, [(3, [])]) 7 = None
   \<and> parse_cpu_utilization cpu_line_no_percent = Inl TypeError"
  by code_simp


end
